theory Spec2Isabelle
  imports Complex_Main
begin

section \<open>Python strings\<close>

text \<open>
  Strings are lists of characters. The operations below are the \<^verbatim>\<open>str\<close> methods
  the skill calls, on ASCII text: \<^verbatim>\<open>lower\<close> changes the letters A to Z only, and
  \<^verbatim>\<open>strip\<close> removes the white space characters below code point 256.
\<close>

definition is_ascii_upper :: "char \<Rightarrow> bool" where
  "is_ascii_upper c \<longleftrightarrow> 65 \<le> (of_char c :: nat) \<and> (of_char c :: nat) \<le> 90"

definition is_ascii_lower :: "char \<Rightarrow> bool" where
  "is_ascii_lower c \<longleftrightarrow> 97 \<le> (of_char c :: nat) \<and> (of_char c :: nat) \<le> 122"

definition char_lower :: "char \<Rightarrow> char" where
  "char_lower c = (if is_ascii_upper c then char_of ((of_char c :: nat) + 32) else c)"

definition str_lower :: "string \<Rightarrow> string" where
  "str_lower s = map char_lower s"

definition str_replace :: "char \<Rightarrow> char \<Rightarrow> string \<Rightarrow> string" where
  "str_replace old new s = map (\<lambda>c. if c = old then new else c) s"

fun str_split :: "char \<Rightarrow> string \<Rightarrow> string list" where
  "str_split sep [] = [[]]"
| "str_split sep (c # cs) =
     (if c = sep then [] # str_split sep cs
      else (case str_split sep cs of
              w # ws \<Rightarrow> (c # w) # ws
            | [] \<Rightarrow> [[c]]))"

fun str_join :: "string \<Rightarrow> string list \<Rightarrow> string" where
  "str_join sep [] = []"
| "str_join sep [w] = w"
| "str_join sep (w # v # ws) = w @ sep @ str_join sep (v # ws)"

definition is_space :: "char \<Rightarrow> bool" where
  "is_space c \<longleftrightarrow> (of_char c :: nat) \<in> {9, 10, 11, 12, 13, 28, 29, 30, 31, 32, 133, 160}"

definition str_strip :: "string \<Rightarrow> string" where
  "str_strip s = rev (dropWhile is_space (rev (dropWhile is_space s)))"

fun str_startswith :: "string \<Rightarrow> string \<Rightarrow> bool" where
  "str_startswith s [] = True"
| "str_startswith [] (p # ps) = False"
| "str_startswith (c # cs) (p # ps) = (c = p \<and> str_startswith cs ps)"

text \<open>
  \<^verbatim>\<open>re.sub(r"([a-z])([A-Z])", r"\g<1> \g<2>", s)\<close>: a space goes between a lower-case
  letter and the upper-case letter that follows it. Matches cannot overlap, because the
  second character of a match is upper case and the first is lower case.
\<close>

fun camel_split :: "string \<Rightarrow> string" where
  "camel_split (a # b # cs) =
     (if is_ascii_lower a \<and> is_ascii_upper b
      then a # CHR '' '' # camel_split (b # cs)
      else a # camel_split (b # cs))"
| "camel_split cs = cs"

section \<open>The skill's collaborators\<close>

text \<open>
  The exceptions that occur. \<^verbatim>\<open>pytz.exceptions.UnknownTimeZoneError\<close> is a subclass
  of \<^verbatim>\<open>KeyError\<close>, so \<^verbatim>\<open>except KeyError\<close> catches both.
\<close>

datatype exn = KeyError | UnknownTimeZoneError | IndexError | TypeError | HTTPError | ConnectionError

fun is_KeyError :: "exn \<Rightarrow> bool" where
  "is_KeyError KeyError = True"
| "is_KeyError UnknownTimeZoneError = True"
| "is_KeyError e = False"

text \<open>
  What the user hears and what goes out to services, in order: \<^verbatim>\<open>ask_yesno\<close> with its
  dialog and the \<^verbatim>\<open>zone_name\<close>, \<^verbatim>\<open>speak_dialog\<close> with its dialog and the
  \<^verbatim>\<open>location\<close>, and a call of the geolocation service.
\<close>

datatype event =
    AskYesNo string string
  | SpeakDialog string "string option"
  | GetGeolocation string

text \<open>The spoken notifications among the events.\<close>

fun is_spoken :: "event \<Rightarrow> bool" where
  "is_spoken (SpeakDialog dialog location) = True"
| "is_spoken e = False"

definition spoken :: "event list \<Rightarrow> event list" where
  "spoken events = filter is_spoken events"

text \<open>
  A match object of \<^verbatim>\<open>re.search\<close> is the map of its named groups: no entry when the
  pattern has no such group (\<^verbatim>\<open>group\<close> raises \<^verbatim>\<open>IndexError\<close>), \<open>Some None\<close>
  when the group took no part in the match (\<^verbatim>\<open>group\<close> returns \<^verbatim>\<open>None\<close>), and
  \<open>Some (Some s)\<close> when it captured \<open>s\<close>.
\<close>

type_synonym match = "string \<rightharpoonup> string option"

text \<open>
  The libraries and services the skill calls are parameters:
  \<^item> \<open>astral_timezone\<close> is \<^verbatim>\<open>self.astral[locale].timezone\<close>, \<open>None\<close> when it raises;
  \<^item> \<open>pytz_timezone\<close> is \<^verbatim>\<open>pytz.timezone\<close>, \<open>None\<close> when it raises
    \<^verbatim>\<open>UnknownTimeZoneError\<close>; \<open>'tz\<close> is the type of timezone objects;
  \<^item> \<open>all_timezones\<close> is \<^verbatim>\<open>pytz.all_timezones\<close>;
  \<^item> \<open>translate_namedvalues\<close> gives the items of the dictionary read from a resource,
    in iteration order;
  \<^item> \<open>fuzzy_match\<close> is \<^verbatim>\<open>mycroft.util.parse.fuzzy_match\<close>. Its result is a float
    \<open>2 * M / T\<close> for natural numbers \<open>M \<le> T\<close>; scores are the exact rationals here, and
    the thresholds \<^verbatim>\<open>0.8\<close> and \<^verbatim>\<open>0.3\<close> are \<open>4 / 5\<close> and \<open>3 / 10\<close>, which compare
    with such a score as the floats do for strings of any realistic length;
  \<^item> \<open>ask_yesno\<close> is the user's answer to a dialog with its \<^verbatim>\<open>zone_name\<close>;
  \<^item> \<open>regex_file\<close> is the lines of the \<^verbatim>\<open>location.rx\<close> resource, \<open>None\<close> when
    \<^verbatim>\<open>find_resource\<close> finds none;
  \<^item> \<open>re_search\<close> is \<^verbatim>\<open>re.search\<close> of a pattern in a string;
  \<^item> \<open>config_core\<close> is the configuration, dictionaries nested three deep on the path
    that is read;
  \<^item> \<open>get_geolocation\<close> is the geolocation service: a dictionary, or an exception.
\<close>

record 'tz env =
  astral_timezone :: "string \<Rightarrow> string option"
  pytz_timezone :: "string \<Rightarrow> 'tz option"
  all_timezones :: "string list"
  translate_namedvalues :: "string \<Rightarrow> (string \<times> string) list"
  fuzzy_match :: "string \<Rightarrow> string \<Rightarrow> rat"
  ask_yesno :: "string \<Rightarrow> string \<Rightarrow> string option"
  regex_file :: "string list option"
  re_search :: "string \<Rightarrow> string \<Rightarrow> match option"
  config_core :: "string \<rightharpoonup> (string \<rightharpoonup> (string \<rightharpoonup> string))"
  get_geolocation :: "string \<Rightarrow> exn + (string \<rightharpoonup> string)"

text \<open>
  A method returns the events it caused and either its value or the exception it raised.
\<close>

type_synonym 'a outcome = "event list \<times> (exn + 'a)"

section \<open>\<^verbatim>\<open>get_timezone\<close>\<close>

text \<open>\<^verbatim>\<open>pytz.timezone(name)\<close> outside any \<^verbatim>\<open>try\<close>: the timezone, or the exception.\<close>

definition timezone_or_raise :: "'tz env \<Rightarrow> string \<Rightarrow> exn + 'tz option" where
  "timezone_or_raise env name =
     (case pytz_timezone env name of
        Some tz \<Rightarrow> Inr (Some tz)
      | None \<Rightarrow> Inl UnknownTimeZoneError)"

text \<open>
  The loop over the table \<^verbatim>\<open>timezone.value\<close>. \<open>None\<close> means that the loop ended
  without a \<^verbatim>\<open>return\<close>.
\<close>

fun timezones_loop :: "'tz env \<Rightarrow> string \<Rightarrow> (string \<times> string) list \<Rightarrow> (exn + 'tz option) option" where
  "timezones_loop env locale [] = None"
| "timezones_loop env locale ((timezone, v) # timezones) =
     (if str_lower locale = str_lower timezone
      then Some (timezone_or_raise env (str_strip v))
      else timezones_loop env locale timezones)"

text \<open>
  The body of the loop over \<^verbatim>\<open>pytz.all_timezones\<close>: the list \<^verbatim>\<open>normalized\<close> of a
  name and its score \<^verbatim>\<open>pct\<close>. \<^verbatim>\<open>split\<close> returns at least one string, so one of the
  two branches runs. The indices \<^verbatim>\<open>-2\<close> and \<^verbatim>\<open>-1\<close> count from the end.
\<close>

definition normalized_name :: "string \<Rightarrow> string list" where
  "normalized_name name = str_split CHR ''/'' (str_replace CHR ''_'' CHR '' '' (str_lower name))"

definition name_pct :: "'tz env \<Rightarrow> string \<Rightarrow> string \<Rightarrow> rat" where
  "name_pct env target name =
     (let normalized = normalized_name name;
          n = length normalized
      in if n = 1 then fuzzy_match env (normalized ! 0) target
         else
           (let pct = fuzzy_match env (normalized ! 1) target;
                pct2 = fuzzy_match env (normalized ! (n - 2) @ '' '' @ normalized ! (n - 1)) target;
                pct3 = fuzzy_match env (normalized ! (n - 1) @ '' '' @ normalized ! (n - 2)) target
            in max pct (max pct2 pct3)))"

fun best_loop :: "'tz env \<Rightarrow> string \<Rightarrow> string list \<Rightarrow> (rat \<times> string) option \<Rightarrow> (rat \<times> string) option" where
  "best_loop env target [] best = best"
| "best_loop env target (name # names) best =
     (let pct = name_pct env target name
      in best_loop env target names
           (case best of
              None \<Rightarrow> Some (pct, name)
            | Some (b, n) \<Rightarrow> if pct \<ge> b then Some (pct, name) else best))"

definition speakable :: "string \<Rightarrow> string" where
  "speakable name =
     str_join '' '' (rev (str_split CHR ''/'' (str_replace CHR ''_'' CHR '' '' (camel_split name))))"

definition fuzzy_tier :: "'tz env \<Rightarrow> string \<Rightarrow> 'tz option outcome" where
  "fuzzy_tier env locale =
     (let target = str_lower locale;
          best = best_loop env target (all_timezones env) None
      in case best of
           None \<Rightarrow> ([], Inr None)
         | Some (pct, name) \<Rightarrow>
             if pct > 4 / 5 then ([], timezone_or_raise env name)
             else if pct > 3 / 10 then
               (let say = speakable name
                in if ask_yesno env ''did.you.mean.timezone'' say = Some ''yes''
                   then ([AskYesNo ''did.you.mean.timezone'' say], timezone_or_raise env name)
                   else ([AskYesNo ''did.you.mean.timezone'' say], Inr None))
             else ([], Inr None))"

text \<open>
  The two \<^verbatim>\<open>try\<close> blocks with a bare \<^verbatim>\<open>except\<close> come first: whatever is raised
  inside is dropped and the next statement runs. \<open>astral_lookup\<close> is the first block,
  \<open>None\<close> when it did not return.
\<close>

definition astral_lookup :: "'tz env \<Rightarrow> string \<Rightarrow> 'tz option" where
  "astral_lookup env locale =
     (case astral_timezone env locale of
        None \<Rightarrow> None
      | Some zone \<Rightarrow> pytz_timezone env zone)"

definition get_timezone :: "'tz env \<Rightarrow> string \<Rightarrow> 'tz option outcome" where
  "get_timezone env locale =
     (case astral_lookup env locale of
        Some tz \<Rightarrow> ([], Inr (Some tz))
      | None \<Rightarrow>
          (case pytz_timezone env locale of
             Some tz \<Rightarrow> ([], Inr (Some tz))
           | None \<Rightarrow>
               (case timezones_loop env locale (translate_namedvalues env ''timezone.value'') of
                  Some r \<Rightarrow> ([], r)
                | None \<Rightarrow> fuzzy_tier env locale)))"

section \<open>\<^verbatim>\<open>_extract_location\<close>, \<^verbatim>\<open>_get_location_patterns\<close> and \<^verbatim>\<open>_get_timezone\<close>\<close>

text \<open>
  The leading underscore of the private methods is written \<open>p_\<close>. The loop of
  \<^verbatim>\<open>_extract_location\<close> carries the variable \<^verbatim>\<open>location\<close>. When the group took no part
  in the match, \<^verbatim>\<open>location\<close> is \<^verbatim>\<open>None\<close> and the concatenation in the call of
  \<^verbatim>\<open>self.log.debug\<close> raises \<^verbatim>\<open>TypeError\<close>.
\<close>

definition p_get_location_patterns :: "'tz env \<Rightarrow> string list" where
  "p_get_location_patterns env =
     (case regex_file env of
        None \<Rightarrow> []
      | Some records \<Rightarrow> map str_strip (filter (\<lambda>record. \<not> str_startswith record ''#'') records))"

fun extract_loop :: "'tz env \<Rightarrow> string \<Rightarrow> string list \<Rightarrow> string option \<Rightarrow> exn + string option" where
  "extract_loop env utterance [] location = Inr location"
| "extract_loop env utterance (regex_pattern # patterns) location =
     (case re_search env regex_pattern utterance of
        None \<Rightarrow> extract_loop env utterance patterns location
      | Some search_result \<Rightarrow>
          (case search_result ''Location'' of
             None \<Rightarrow> extract_loop env utterance patterns location
           | Some None \<Rightarrow> Inl TypeError
           | Some (Some found) \<Rightarrow> Inr (Some found)))"

definition p_extract_location :: "'tz env \<Rightarrow> string \<Rightarrow> exn + string option" where
  "p_extract_location env utterance =
     extract_loop env utterance (p_get_location_patterns env) None"

definition config_tz_code :: "'tz env \<Rightarrow> exn + string" where
  "config_tz_code env =
     (case config_core env ''location'' of
        None \<Rightarrow> Inl KeyError
      | Some location \<Rightarrow>
          (case location ''timezone'' of
             None \<Rightarrow> Inl KeyError
           | Some timezone \<Rightarrow>
               (case timezone ''code'' of
                  None \<Rightarrow> Inl KeyError
                | Some code \<Rightarrow> Inr code)))"

definition geolocation_tz_code :: "'tz env \<Rightarrow> string \<Rightarrow> exn + string" where
  "geolocation_tz_code env location =
     (case get_geolocation env location of
        Inl e \<Rightarrow> Inl e
      | Inr geolocation \<Rightarrow>
          (case geolocation ''timezone'' of
             None \<Rightarrow> Inl KeyError
           | Some code \<Rightarrow> Inr code))"

definition p_get_timezone :: "'tz env \<Rightarrow> string option \<Rightarrow> 'tz option outcome" where
  "p_get_timezone env location =
     (let called = (case location of None \<Rightarrow> [] | Some l \<Rightarrow> [GetGeolocation l]);
          tz_code = (case location of
                       None \<Rightarrow> config_tz_code env
                     | Some l \<Rightarrow> geolocation_tz_code env l);
          not_found = SpeakDialog ''time.tz.not.found'' location
      in case tz_code of
           Inl e \<Rightarrow>
             if is_KeyError e then (called @ [not_found], Inr None)
             else (called, Inl e)
         | Inr code \<Rightarrow>
             (case pytz_timezone env code of
                None \<Rightarrow> (called @ [not_found], Inr None)
              | Some tz \<Rightarrow> (called, Inr (Some tz))))"

section \<open>The score as the specification words it\<close>


section \<open>Leap years\<close>

text \<open>
  \<^verbatim>\<open>is_leap_year\<close> and \<^verbatim>\<open>get_next_leap_year\<close> of \<^verbatim>\<open>DateTimeSkill\<close>.
  Python integers are unbounded, and \<^verbatim>\<open>%\<close> with a positive modulus is the floored
  remainder, which is \<open>mod\<close> on \<open>int\<close>. The recursion of
  \<^verbatim>\<open>get_next_leap_year\<close> calls itself on \<open>year + 1\<close> until that year is a
  leap year; the distance of the year to the end of its 400-year cycle decreases with
  every call, which is the termination argument below.
\<close>

definition is_leap_year :: "int \<Rightarrow> bool" where
  "is_leap_year year \<longleftrightarrow>
     (year mod 400 = 0) \<or> ((year mod 4 = 0) \<and> (year mod 100 \<noteq> 0))"

function get_next_leap_year :: "int \<Rightarrow> int" where
  "get_next_leap_year year =
     (let next_year = year + 1 in
      if is_leap_year next_year then next_year
      else get_next_leap_year next_year)"
  by pat_completeness auto
termination
proof (relation "measure (\<lambda>year. nat (399 - year mod 400))")
  show "wf (measure (\<lambda>year. nat (399 - year mod 400)))"
    by simp
next
  fix year next_year :: int
  assume n: "next_year = year + 1" and nl: "\<not> is_leap_year next_year"
  from nl n have nz: "(year + 1) mod 400 \<noteq> 0"
    by (simp add: is_leap_year_def)
  have lo: "0 \<le> year mod 400" and hi: "year mod 400 < 400"
    by simp_all
  have e: "(year + 1) mod 400 = (year mod 400 + 1) mod 400"
    by (simp add: mod_add_left_eq)
  have "year mod 400 \<noteq> 399"
  proof
    assume "year mod 400 = 399"
    with e have "(year + 1) mod 400 = 0"
      by simp
    with nz show False
      by simp
  qed
  with hi have "year mod 400 < 399"
    by linarith
  with lo have s: "(year mod 400 + 1) mod 400 = year mod 400 + 1"
    by (simp add: mod_pos_pos_trivial)
  from s e n hi show "(next_year, year) \<in> measure (\<lambda>year. nat (399 - year mod 400))"
    by simp
qed

declare get_next_leap_year.simps [simp del]

section \<open>An example environment\<close>

text \<open>
  Concrete collaborators for the examples: five names of the timezone database in its
  order, with timezone objects standing for their names; two cities of the geographic
  table; a small table \<^verbatim>\<open>timezone.value\<close>; a user who says yes; a file of three
  location patterns, the last with an optional group, and what \<^verbatim>\<open>re.search\<close> finds
  with them in three utterances; a home timezone; and a geolocation service that knows
  two places, one of them with a timezone code that \<^verbatim>\<open>pytz\<close> does not know, returns a
  result without a timezone for a third, and is out of reach for every other.
  \<open>example_fuzzy_match\<close> holds the values of
  \<^verbatim>\<open>SequenceMatcher(None, x, against).ratio()\<close>, which \<^verbatim>\<open>fuzzy_match\<close> returns, for the
  strings that the five names give against the targets \<^verbatim>\<open>center\<close>, \<^verbatim>\<open>eastern\<close>,
  \<^verbatim>\<open>sydney\<close> and \<^verbatim>\<open>island\<close>.
\<close>

definition example_zones :: "string list" where
  "example_zones =
     [''America/North_Dakota/Center'', ''Australia/Sydney'', ''Canada/Eastern'',
      ''Chile/EasterIsland'', ''US/Eastern'']"

definition example_ratios :: "((string \<times> string) \<times> rat) list" where
  "example_ratios =
     [
      ((''north dakota'', ''center''), 2 / 9),
      ((''north dakota center'', ''center''), 12 / 25),
      ((''center north dakota'', ''center''), 12 / 25),
      ((''sydney'', ''center''), 1 / 3),
      ((''australia sydney'', ''center''), 2 / 11),
      ((''sydney australia'', ''center''), 3 / 11),
      ((''eastern'', ''center''), 8 / 13),
      ((''canada eastern'', ''center''), 1 / 2),
      ((''eastern canada'', ''center''), 2 / 5),
      ((''easterisland'', ''center''), 4 / 9),
      ((''chile easterisland'', ''center''), 5 / 12),
      ((''easterisland chile'', ''center''), 1 / 3),
      ((''us eastern'', ''center''), 1 / 2),
      ((''eastern us'', ''center''), 1 / 2),
      ((''north dakota'', ''eastern''), 2 / 19),
      ((''north dakota center'', ''eastern''), 4 / 13),
      ((''center north dakota'', ''eastern''), 5 / 13),
      ((''sydney'', ''eastern''), 4 / 13),
      ((''australia sydney'', ''eastern''), 10 / 23),
      ((''sydney australia'', ''eastern''), 10 / 23),
      ((''canada eastern'', ''eastern''), 2 / 3),
      ((''eastern canada'', ''eastern''), 2 / 3),
      ((''easterisland'', ''eastern''), 14 / 19),
      ((''chile easterisland'', ''eastern''), 14 / 25),
      ((''easterisland chile'', ''eastern''), 14 / 25),
      ((''us eastern'', ''eastern''), 14 / 17),
      ((''eastern us'', ''eastern''), 14 / 17),
      ((''north dakota'', ''sydney''), 1 / 9),
      ((''north dakota center'', ''sydney''), 4 / 25),
      ((''center north dakota'', ''sydney''), 2 / 25),
      ((''australia sydney'', ''sydney''), 6 / 11),
      ((''sydney australia'', ''sydney''), 6 / 11),
      ((''eastern'', ''sydney''), 2 / 13),
      ((''canada eastern'', ''sydney''), 1 / 5),
      ((''eastern canada'', ''sydney''), 1 / 10),
      ((''easterisland'', ''sydney''), 1 / 9),
      ((''chile easterisland'', ''sydney''), 1 / 12),
      ((''easterisland chile'', ''sydney''), 1 / 12),
      ((''us eastern'', ''sydney''), 1 / 4),
      ((''eastern us'', ''sydney''), 1 / 8),
      ((''north dakota'', ''island''), 2 / 9),
      ((''north dakota center'', ''island''), 4 / 25),
      ((''center north dakota'', ''island''), 4 / 25),
      ((''sydney'', ''island''), 1 / 3),
      ((''australia sydney'', ''island''), 2 / 11),
      ((''sydney australia'', ''island''), 2 / 11),
      ((''eastern'', ''island''), 4 / 13),
      ((''canada eastern'', ''island''), 3 / 10),
      ((''eastern canada'', ''island''), 2 / 5),
      ((''easterisland'', ''island''), 2 / 3),
      ((''chile easterisland'', ''island''), 1 / 2),
      ((''easterisland chile'', ''island''), 1 / 2),
      ((''us eastern'', ''island''), 3 / 8),
      ((''eastern us'', ''island''), 1 / 4)
     ]"

definition example_fuzzy_match :: "string \<Rightarrow> string \<Rightarrow> rat" where
  "example_fuzzy_match x against =
     (if x = against then 1
      else (case map_of example_ratios (x, against) of
              Some ratio \<Rightarrow> ratio
            | None \<Rightarrow> 0))"

definition example_search :: "string \<Rightarrow> string \<Rightarrow> match option" where
  "example_search regex_pattern utterance =
     (if regex_pattern = ''what (?P<Asked>time|day)''
         \<and> utterance \<in> {''what time is it in paris'', ''what time is it''}
      then Some [''Asked'' \<mapsto> Some ''time'']
      else if regex_pattern = ''(in|for) (?P<Location>.+)''
         \<and> utterance = ''what time is it in paris''
      then Some [''Location'' \<mapsto> Some ''paris'']
      else if regex_pattern = ''time( in (?P<Location>.+))?$''
         \<and> utterance = ''what is the time''
      then Some [''Location'' \<mapsto> None]
      else None)"

definition example_env :: "string env" where
  "example_env =
     \<lparr> astral_timezone = map_of [(''dallas'', ''US/Central''), (''paris'', ''Europe/Paris'')],
       pytz_timezone =
         (\<lambda>name. if name \<in> set (example_zones @ [''US/Central'', ''Europe/Paris'', ''Asia/Shanghai''])
                  then Some name else None),
       all_timezones = example_zones,
       translate_namedvalues = (\<lambda>resource. [(''China'', '' Asia/Shanghai '')]),
       fuzzy_match = example_fuzzy_match,
       ask_yesno = (\<lambda>dialog zone_name. Some ''yes''),
       regex_file =
         Some [''# where'', ''what (?P<Asked>time|day)'', '' (in|for) (?P<Location>.+) '',
               ''time( in (?P<Location>.+))?$''],
       re_search = example_search,
       config_core = [''location'' \<mapsto> [''timezone'' \<mapsto> [''code'' \<mapsto> ''US/Central'']]],
       get_geolocation =
         (\<lambda>location.
            if location = ''paris'' then Inr [''city'' \<mapsto> ''Paris'', ''timezone'' \<mapsto> ''Europe/Paris'']
            else if location = ''atlantis'' then Inr [''city'' \<mapsto> ''Atlantis'', ''timezone'' \<mapsto> ''Ocean/Atlantis'']
            else if location = ''nowhere'' then Inr [''city'' \<mapsto> ''Nowhere'']
            else Inl ConnectionError) \<rparr>"

section \<open>Properties of the leap-year helpers\<close>


lemma get_next_leap_year_hit: "is_leap_year (year + 1) \<Longrightarrow> get_next_leap_year year = year + 1"
  by (subst get_next_leap_year.simps) simp

lemma get_next_leap_year_skip: "\<not> is_leap_year (year + 1) \<Longrightarrow> get_next_leap_year year = get_next_leap_year (year + 1)"
  by (subst get_next_leap_year.simps) simp

lemma get_next_leap_year_least:
  "is_leap_year (get_next_leap_year year) \<and> year < get_next_leap_year year \<and>
   (\<forall>z. year < z \<and> z < get_next_leap_year year \<longrightarrow> \<not> is_leap_year z)"
proof (induction year rule: get_next_leap_year.induct)
  case (1 year)
  show ?case
  proof (cases "is_leap_year (year + 1)")
    case True
    then show ?thesis
      by (auto simp: get_next_leap_year_hit)
  next
    case False
    have ih: "is_leap_year (get_next_leap_year (year + 1)) \<and> year + 1 < get_next_leap_year (year + 1) \<and>
      (\<forall>z. year + 1 < z \<and> z < get_next_leap_year (year + 1) \<longrightarrow> \<not> is_leap_year z)"
      using "1.IH" [OF refl False] .
    have eq: "get_next_leap_year year = get_next_leap_year (year + 1)"
      using False by (rule get_next_leap_year_skip)
    have "\<not> is_leap_year z" if "year < z" "z < get_next_leap_year (year + 1)" for z
    proof (cases "z = year + 1")
      case True
      with False show ?thesis by simp
    next
      case False
      with that have "year + 1 < z" by simp
      with ih that show ?thesis by blast
    qed
    with ih eq show ?thesis
      by auto
  qed
qed

lemma leap_within_8: "\<exists>z. y < z \<and> z \<le> y + 8 \<and> is_leap_year z"
proof -
  define m where "m = y + 4 - y mod 4"
  have lo: "0 \<le> y mod 4" and hi: "y mod 4 < 4"
    by simp_all
  have m4: "m mod 4 = 0"
    unfolding m_def by presburger
  have rng: "y < m" "m \<le> y + 4"
    using lo hi by (simp_all add: m_def)
  show ?thesis
  proof (cases "m mod 100 = 0")
    case False
    with m4 have "is_leap_year m"
      by (simp add: is_leap_year_def)
    with rng show ?thesis
      by (intro exI [of _ m]) simp
  next
    case True
    have "(m + 4) mod 100 = (m mod 100 + 4) mod 100"
      by (simp add: mod_add_left_eq)
    with True have a: "(m + 4) mod 100 = 4"
      by simp
    have "(m + 4) mod 4 = (m mod 4 + 4) mod 4"
      by (simp add: mod_add_left_eq)
    with m4 have b: "(m + 4) mod 4 = 0"
      by simp
    from a b have "is_leap_year (m + 4)"
      by (simp add: is_leap_year_def)
    with rng show ?thesis
      by (intro exI [of _ "m + 4"]) simp
  qed
qed

lemma get_next_leap_year_bound: "get_next_leap_year y \<le> y + 8"
proof (rule ccontr)
  assume "\<not> get_next_leap_year y \<le> y + 8"
  then have big: "y + 8 < get_next_leap_year y" by simp
  obtain z where z: "y < z" "z \<le> y + 8" "is_leap_year z"
    using leap_within_8 by blast
  with big have "y < z \<and> z < get_next_leap_year y" by simp
  with get_next_leap_year_least [of y] have "\<not> is_leap_year z" by blast
  with z show False by simp
qed


text \<open>
  Claim C9. The leap-year helpers give the listed examples: 2000 and 2024 are leap
  years, 1900 is not, the leap year after 2024 is 2028; and a year is a leap year
  exactly when it is divisible by 400, or divisible by 4 and not by 100.
\<close>

theorem is_leap_year_examples_and_rule:
  "is_leap_year 2000 \<and> \<not> is_leap_year 1900 \<and> is_leap_year 2024 \<and>
   get_next_leap_year 2024 = 2028 \<and>
   (\<forall>y. is_leap_year y \<longleftrightarrow> 400 dvd y \<or> (4 dvd y \<and> \<not> 100 dvd y))"
proof -
  have "get_next_leap_year 2024 = 2028"
    by (simp add: get_next_leap_year.simps is_leap_year_def)
  moreover have "is_leap_year 2000 \<and> \<not> is_leap_year 1900 \<and> is_leap_year 2024"
    by (simp add: is_leap_year_def)
  moreover have "\<forall>y. is_leap_year y \<longleftrightarrow> 400 dvd y \<or> (4 dvd y \<and> \<not> 100 dvd y)"
    by (simp add: is_leap_year_def dvd_eq_mod_eq_0)
  ultimately show ?thesis
    by blast
qed

text \<open>
  Claim C10. For every integer year the recursion of \<^verbatim>\<open>get_next_leap_year\<close>
  terminates (the function is total, by the termination proof above, and its result is
  at most eight years ahead), and the result is the least leap year strictly greater
  than the input: it is a leap year, it is greater than the input (so the input itself
  is never returned, leap year or not), and no year strictly between is a leap year.
\<close>

theorem get_next_leap_year_is_least_later_leap_year:
  "is_leap_year (get_next_leap_year year) \<and>
   year < get_next_leap_year year \<and>
   get_next_leap_year year \<noteq> year \<and>
   get_next_leap_year year \<le> year + 8 \<and>
   (\<forall>z. year < z \<and> z < get_next_leap_year year \<longrightarrow> \<not> is_leap_year z)"
  using get_next_leap_year_least [of year] get_next_leap_year_bound [of year]
  by simp

theorem get_next_leap_year_is_least_later_leap_year_witness:
  "is_leap_year (get_next_leap_year 2024) \<and> get_next_leap_year 2024 \<noteq> 2024 \<and>
   (2024 :: int) < 2026 \<and> 2026 < get_next_leap_year 2024 \<and> \<not> is_leap_year 2026"
proof -
  have "get_next_leap_year 2024 = 2028"
    by (simp add: get_next_leap_year.simps is_leap_year_def)
  then show ?thesis
    using get_next_leap_year_is_least_later_leap_year [of 2024]
    by simp
qed

section \<open>The order of the tiers in \<^verbatim>\<open>get_timezone\<close>\<close>


lemma timezones_loop_other_fields [simp]:
  "timezones_loop (env\<lparr>fuzzy_match := f\<rparr>) locale tbl = timezones_loop env locale tbl"
  "timezones_loop (env\<lparr>all_timezones := zs\<rparr>) locale tbl = timezones_loop env locale tbl"
  "timezones_loop (env\<lparr>ask_yesno := a\<rparr>) locale tbl = timezones_loop env locale tbl"
  by (induction tbl) (auto simp: timezone_or_raise_def)

lemma astral_lookup_other_fields [simp]:
  "astral_lookup (env\<lparr>translate_namedvalues := tv\<rparr>) locale = astral_lookup env locale"
  "astral_lookup (env\<lparr>fuzzy_match := f\<rparr>) locale = astral_lookup env locale"
  "astral_lookup (env\<lparr>all_timezones := zs\<rparr>) locale = astral_lookup env locale"
  "astral_lookup (env\<lparr>ask_yesno := a\<rparr>) locale = astral_lookup env locale"
  by (simp_all add: astral_lookup_def split: option.splits)



section \<open>The fuzzy tier\<close>

lemma best_loop_append:
  "best_loop env target (xs @ ys) best = best_loop env target ys (best_loop env target xs best)"
  by (induction xs arbitrary: best) (simp_all add: Let_def)

lemma best_loop_snoc:
  "best_loop env target (xs @ [x]) best =
     (case best_loop env target xs best of
        None \<Rightarrow> Some (name_pct env target x, x)
      | Some (b, n) \<Rightarrow>
          if name_pct env target x \<ge> b then Some (name_pct env target x, x)
          else Some (b, n))"
  by (simp add: best_loop_append Let_def split: option.splits)

lemma best_loop_None_iff:
  "best_loop env target names None = None \<longleftrightarrow> names = []"
proof (induction names rule: rev_induct)
  case Nil
  show ?case by simp
next
  case (snoc x xs)
  show ?case
    by (simp add: best_loop_snoc split: option.splits)
qed

lemma best_loop_last_max:
  assumes "best_loop env target names None = Some (p, n)"
  shows "\<exists>pre post. names = pre @ n # post \<and> p = name_pct env target n \<and>
           (\<forall>m \<in> set pre. name_pct env target m \<le> p) \<and>
           (\<forall>m \<in> set post. name_pct env target m < p)"
  using assms
proof (induction names arbitrary: p n rule: rev_induct)
  case Nil
  then show ?case by simp
next
  case (snoc x xs)
  show ?case
  proof (cases "best_loop env target xs None")
    case None
    then have "xs = []"
      by (simp add: best_loop_None_iff)
    with snoc.prems have "p = name_pct env target x" "n = x"
      by auto
    with \<open>xs = []\<close> show ?thesis
      by (intro exI [of _ "[]"]) simp
  next
    case (Some bn)
    obtain b k where bn: "bn = (b, k)"
      by (cases bn)
    from snoc.IH [of b k] Some bn obtain pre post where
      xs: "xs = pre @ k # post" and b: "b = name_pct env target k"
      and pre: "\<forall>m \<in> set pre. name_pct env target m \<le> b"
      and post: "\<forall>m \<in> set post. name_pct env target m < b"
      by blast
    show ?thesis
    proof (cases "name_pct env target x \<ge> b")
      case True
      with snoc.prems Some bn have r: "p = name_pct env target x" "n = x"
        by (auto simp: best_loop_snoc)
      have "\<forall>m \<in> set xs. name_pct env target m \<le> p"
        using xs b pre post True r by fastforce
      with r show ?thesis
        by (intro exI [of _ xs] exI [of _ "[]"]) simp
    next
      case False
      with snoc.prems Some bn have r: "p = b" "n = k"
        by (auto simp: best_loop_snoc)
      from False post r have "\<forall>m \<in> set (post @ [x]). name_pct env target m < p"
        by auto
      with r xs b pre show ?thesis
        by (intro exI [of _ pre] exI [of _ "post @ [x]"]) simp
    qed
  qed
qed







section \<open>Confirmation and silent acceptance\<close>

lemma get_timezone_fuzzy:
  assumes "astral_lookup env locale = None" and "pytz_timezone env locale = None"
    and "timezones_loop env locale (translate_namedvalues env ''timezone.value'') = None"
  shows "get_timezone env locale = fuzzy_tier env locale"
  using assms by (simp add: get_timezone_def)



lemma name_pct_le_1:
  assumes "\<forall>x y. fuzzy_match env x y \<le> 1"
  shows "name_pct env target name \<le> 1"
  using assms by (simp add: name_pct_def Let_def)

lemma name_pct_exact:
  assumes "\<forall>x. fuzzy_match env x x = 1" and "\<forall>x y. fuzzy_match env x y \<le> 1"
    and "normalized_name name = [target] \<or> (\<exists>region. normalized_name name = [region, target])"
  shows "name_pct env target name = 1"
proof -
  have le: "name_pct env target name \<le> 1"
    using assms(2) by (rule name_pct_le_1)
  have "fuzzy_match env target target \<le> name_pct env target name"
    using assms(3) by (auto simp: name_pct_def Let_def)
  with assms(1) le show ?thesis
    by simp
qed


lemma example_ratios_le_1: "\<forall>e \<in> set example_ratios. snd e \<le> 1"
  by (simp add: example_ratios_def)

lemma example_fuzzy_match_le_1: "example_fuzzy_match x against \<le> 1"
proof (cases "map_of example_ratios (x, against)")
  case None
  then show ?thesis
    by (simp add: example_fuzzy_match_def)
next
  case (Some ratio)
  then have "((x, against), ratio) \<in> set example_ratios"
    by (rule map_of_SomeD)
  with example_ratios_le_1 have "ratio \<le> 1"
    by fastforce
  with Some show ?thesis
    by (simp add: example_fuzzy_match_def)
qed

text \<open>
  Two names with the same short name: \<^verbatim>\<open>Eastern\<close> is the short name of
  \<^verbatim>\<open>Canada/Eastern\<close>, and the timezone returned is that of \<^verbatim>\<open>US/Eastern\<close>, the
  last name with the greatest score.
\<close>

theorem get_timezone_ambiguous_short_name_counterexample:
  "''Canada/Eastern'' \<in> set (all_timezones example_env) \<and>
   str_lower ''Eastern'' = str_lower (last (str_split CHR ''/'' ''Canada/Eastern'')) \<and>
   pytz_timezone example_env ''Canada/Eastern'' = Some ''Canada/Eastern'' \<and>
   get_timezone example_env ''Eastern'' = ([], Inr (Some ''US/Eastern''))"
proof -
  have "''Canada/Eastern'' \<in> set (all_timezones example_env)"
    by (simp add: example_env_def example_zones_def)
  moreover have "str_lower ''Eastern'' = str_lower (last (str_split CHR ''/'' ''Canada/Eastern''))"
    by code_simp
  moreover have "pytz_timezone example_env ''Canada/Eastern'' = Some ''Canada/Eastern''"
    by code_simp
  moreover have "get_timezone example_env ''Eastern'' = ([], Inr (Some ''US/Eastern''))"
    by code_simp
  ultimately show ?thesis
    by (intro conjI)
qed

text \<open>
  Claim C5, as amended. Let a location reach the fuzzy tier, and let its lower-case form
  be the normalized form (lower case, underscores as spaces) of a name without a slash,
  or of the short name of a name of two components, in the list of names. When
  \<^verbatim>\<open>fuzzy_match\<close> gives 1 for equal strings and never more than 1, then
  \<^verbatim>\<open>get_timezone\<close> returns without any dialog the timezone of the last name in the
  list whose score is 1; that is the given name when no other name scores 1.
\<close>

theorem get_timezone_exact_name_silent:
  assumes "astral_lookup env locale = None" and "pytz_timezone env locale = None"
    and "timezones_loop env locale (translate_namedvalues env ''timezone.value'') = None"
    and "\<forall>x. fuzzy_match env x x = 1" and "\<forall>x y. fuzzy_match env x y \<le> 1"
    and "name \<in> set (all_timezones env)"
    and "normalized_name name = [str_lower locale]
           \<or> (\<exists>region. normalized_name name = [region, str_lower locale])"
  shows "\<exists>n pre post.
           all_timezones env = pre @ n # post \<and>
           name_pct env (str_lower locale) n = 1 \<and>
           (\<forall>m \<in> set post. name_pct env (str_lower locale) m < 1) \<and>
           get_timezone env locale = ([], timezone_or_raise env n) \<and>
           ((\<forall>m \<in> set (all_timezones env). m \<noteq> name \<longrightarrow> name_pct env (str_lower locale) m < 1)
              \<longrightarrow> n = name)"
proof -
  let ?t = "str_lower locale"
  have one: "name_pct env ?t name = 1"
    using assms(4,5,7) by (rule name_pct_exact)
  from assms(6) have "all_timezones env \<noteq> []"
    by auto
  then obtain p n where best: "best_loop env ?t (all_timezones env) None = Some (p, n)"
    using best_loop_None_iff [of env ?t "all_timezones env"] by fastforce
  from best_loop_last_max [OF best] obtain pre post where
    split: "all_timezones env = pre @ n # post" and p: "p = name_pct env ?t n"
    and pre: "\<forall>m \<in> set pre. name_pct env ?t m \<le> p"
    and post: "\<forall>m \<in> set post. name_pct env ?t m < p"
    by blast
  from assms(6) split consider "name \<in> set pre" | "name = n" | "name \<in> set post"
    by auto
  then have "name_pct env ?t name \<le> p"
  proof cases
    case 1
    with pre show ?thesis
      by blast
  next
    case 2
    with p show ?thesis
      by simp
  next
    case 3
    with post have "name_pct env ?t name < p"
      by blast
    then show ?thesis
      by simp
  qed
  moreover have "p \<le> 1"
    using p name_pct_le_1 [OF assms(5)] by simp
  ultimately have p1: "p = 1"
    using one by simp
  have "get_timezone env locale = fuzzy_tier env locale"
    using assms(1-3) by (rule get_timezone_fuzzy)
  also have "\<dots> = ([], timezone_or_raise env n)"
    using best p1 by (simp add: fuzzy_tier_def Let_def)
  finally have r: "get_timezone env locale = ([], timezone_or_raise env n)" .
  have u: "n = name"
    if "\<forall>m \<in> set (all_timezones env). m \<noteq> name \<longrightarrow> name_pct env ?t m < 1"
  proof (rule ccontr)
    assume "n \<noteq> name"
    moreover have "n \<in> set (all_timezones env)"
      using split by simp
    ultimately have "name_pct env ?t n < 1"
      using that by blast
    with p p1 show False
      by simp
  qed
  have n1: "name_pct env ?t n = 1"
    using p p1 by simp
  have post1: "\<forall>m \<in> set post. name_pct env ?t m < 1"
    using post p1 by simp
  have u': "(\<forall>m \<in> set (all_timezones env). m \<noteq> name \<longrightarrow> name_pct env ?t m < 1) \<longrightarrow> n = name"
    using u by (rule impI)
  show ?thesis
    by (intro exI [of _ n] exI [of _ pre] exI [of _ post] conjI split n1 post1 r u')
qed

theorem get_timezone_exact_name_silent_witness:
  "astral_lookup example_env ''Sydney'' = None \<and>
   pytz_timezone example_env ''Sydney'' = None \<and>
   timezones_loop example_env ''Sydney'' (translate_namedvalues example_env ''timezone.value'') = None \<and>
   (\<forall>x. fuzzy_match example_env x x = 1) \<and>
   (\<forall>x y. fuzzy_match example_env x y \<le> 1) \<and>
   ''Australia/Sydney'' \<in> set (all_timezones example_env) \<and>
   normalized_name ''Australia/Sydney'' = [''australia'', str_lower ''Sydney''] \<and>
   get_timezone example_env ''Sydney'' = ([], Inr (Some ''Australia/Sydney'')) \<and>
   (\<exists>n pre post.
      all_timezones example_env = pre @ n # post \<and>
      name_pct example_env (str_lower ''Sydney'') n = 1 \<and>
      (\<forall>m \<in> set post. name_pct example_env (str_lower ''Sydney'') m < 1) \<and>
      get_timezone example_env ''Sydney'' = ([], timezone_or_raise example_env n) \<and>
      ((\<forall>m \<in> set (all_timezones example_env).
          m \<noteq> ''Australia/Sydney'' \<longrightarrow> name_pct example_env (str_lower ''Sydney'') m < 1)
         \<longrightarrow> n = ''Australia/Sydney''))"
proof -
  have a: "astral_lookup example_env ''Sydney'' = None"
    and b: "pytz_timezone example_env ''Sydney'' = None"
    and c: "timezones_loop example_env ''Sydney'' (translate_namedvalues example_env ''timezone.value'') = None"
    by code_simp+
  have f: "''Australia/Sydney'' \<in> set (all_timezones example_env)"
    by (simp add: example_env_def example_zones_def)
  have d: "\<forall>x. fuzzy_match example_env x x = 1"
    by (simp add: example_env_def example_fuzzy_match_def)
  have e: "\<forall>x y. fuzzy_match example_env x y \<le> 1"
    by (simp add: example_env_def example_fuzzy_match_le_1)
  have g: "normalized_name ''Australia/Sydney'' = [''australia'', str_lower ''Sydney'']"
    by code_simp
  then have g': "normalized_name ''Australia/Sydney'' = [str_lower ''Sydney'']
      \<or> (\<exists>region. normalized_name ''Australia/Sydney'' = [region, str_lower ''Sydney''])"
    by blast
  have h: "get_timezone example_env ''Sydney'' = ([], Inr (Some ''Australia/Sydney''))"
    by code_simp
  note ex = get_timezone_exact_name_silent [OF a b c d e f g']
  show ?thesis
    by (intro conjI a b c d e f g h ex)
qed

section \<open>Properties of \<^verbatim>\<open>_get_timezone\<close>\<close>

lemma config_tz_code_cases:
  "config_tz_code env = Inl KeyError \<or> (\<exists>code. config_tz_code env = Inr code)"
  by (simp add: config_tz_code_def split: option.splits)

lemma p_get_timezone_None:
  "p_get_timezone env None =
     (case config_tz_code env of
        Inl e \<Rightarrow> ([SpeakDialog ''time.tz.not.found'' None], Inr None)
      | Inr code \<Rightarrow>
          (case pytz_timezone env code of
             None \<Rightarrow> ([SpeakDialog ''time.tz.not.found'' None], Inr None)
           | Some tz \<Rightarrow> ([], Inr (Some tz))))"
  using config_tz_code_cases [of env]
  by (auto simp: p_get_timezone_def Let_def split: option.splits sum.splits)

lemma config_tz_code_other_fields [simp]:
  "config_tz_code (env\<lparr>get_geolocation := g\<rparr>) = config_tz_code env"
  by (simp add: config_tz_code_def split: option.splits)

lemma p_get_timezone_Some:
  "p_get_timezone env (Some l) =
     (case geolocation_tz_code env l of
        Inl e \<Rightarrow>
          if is_KeyError e
          then ([GetGeolocation l, SpeakDialog ''time.tz.not.found'' (Some l)], Inr None)
          else ([GetGeolocation l], Inl e)
      | Inr code \<Rightarrow>
          (case pytz_timezone env code of
             None \<Rightarrow> ([GetGeolocation l, SpeakDialog ''time.tz.not.found'' (Some l)], Inr None)
           | Some tz \<Rightarrow> ([GetGeolocation l], Inr (Some tz))))"
  by (simp add: p_get_timezone_def Let_def split: option.splits sum.splits)

text \<open>
  Claim C7. Without a location, \<^verbatim>\<open>_get_timezone\<close> does not call the geolocation
  service, and its result does not depend on the service: it takes the code at
  \<^verbatim>\<open>location\<close>, \<^verbatim>\<open>timezone\<close>, \<^verbatim>\<open>code\<close> of the configuration and returns its
  timezone. When the code is missing at any of the three levels, or is not a timezone
  that \<^verbatim>\<open>pytz\<close> knows, the result is \<^verbatim>\<open>None\<close>.
\<close>

theorem p_get_timezone_without_location:
  "(\<forall>l. GetGeolocation l \<notin> set (fst (p_get_timezone env None))) \<and>
   (\<forall>g. p_get_timezone (env\<lparr>get_geolocation := g\<rparr>) None = p_get_timezone env None) \<and>
   (config_core env ''location'' = Some location \<and> location ''timezone'' = Some timezone \<and>
    timezone ''code'' = Some code \<and> pytz_timezone env code = Some tz
      \<longrightarrow> p_get_timezone env None = ([], Inr (Some tz))) \<and>
   (config_core env ''location'' = Some location \<and> location ''timezone'' = Some timezone \<and>
    timezone ''code'' = Some code \<and> pytz_timezone env code = None
      \<longrightarrow> p_get_timezone env None = ([SpeakDialog ''time.tz.not.found'' None], Inr None)) \<and>
   (config_core env ''location'' = None
      \<or> (config_core env ''location'' = Some location \<and> location ''timezone'' = None)
      \<or> (config_core env ''location'' = Some location \<and> location ''timezone'' = Some timezone \<and>
          timezone ''code'' = None)
      \<longrightarrow> p_get_timezone env None = ([SpeakDialog ''time.tz.not.found'' None], Inr None))"
proof (intro conjI allI impI)
  fix l
  show "GetGeolocation l \<notin> set (fst (p_get_timezone env None))"
    by (simp add: p_get_timezone_None split: sum.splits option.splits)
next
  fix g
  show "p_get_timezone (env\<lparr>get_geolocation := g\<rparr>) None = p_get_timezone env None"
    by (simp add: p_get_timezone_None split: sum.splits)
next
  assume "config_core env ''location'' = Some location \<and> location ''timezone'' = Some timezone \<and>
    timezone ''code'' = Some code \<and> pytz_timezone env code = Some tz"
  then show "p_get_timezone env None = ([], Inr (Some tz))"
    by (simp add: p_get_timezone_None config_tz_code_def)
next
  assume "config_core env ''location'' = Some location \<and> location ''timezone'' = Some timezone \<and>
    timezone ''code'' = Some code \<and> pytz_timezone env code = None"
  then show "p_get_timezone env None = ([SpeakDialog ''time.tz.not.found'' None], Inr None)"
    by (simp add: p_get_timezone_None config_tz_code_def)
next
  assume "config_core env ''location'' = None
      \<or> (config_core env ''location'' = Some location \<and> location ''timezone'' = None)
      \<or> (config_core env ''location'' = Some location \<and> location ''timezone'' = Some timezone \<and>
          timezone ''code'' = None)"
  then have "config_tz_code env = Inl KeyError"
    by (auto simp: config_tz_code_def)
  then show "p_get_timezone env None = ([SpeakDialog ''time.tz.not.found'' None], Inr None)"
    by (simp add: p_get_timezone_None)
qed

theorem p_get_timezone_without_location_witness:
  "config_core example_env ''location'' = Some [''timezone'' \<mapsto> [''code'' \<mapsto> ''US/Central'']] \<and>
   pytz_timezone example_env ''US/Central'' = Some ''US/Central'' \<and>
   p_get_timezone example_env None = ([], Inr (Some ''US/Central'')) \<and>
   p_get_timezone (example_env\<lparr>get_geolocation := (\<lambda>location. Inl HTTPError)\<rparr>) None
     = ([], Inr (Some ''US/Central'')) \<and>
   pytz_timezone (example_env\<lparr>config_core := [''location'' \<mapsto> [''timezone'' \<mapsto> [''code'' \<mapsto> ''Mars/Phobos'']]]\<rparr>)
     ''Mars/Phobos'' = None \<and>
   p_get_timezone (example_env\<lparr>config_core := [''location'' \<mapsto> [''timezone'' \<mapsto> [''code'' \<mapsto> ''Mars/Phobos'']]]\<rparr>) None
     = ([SpeakDialog ''time.tz.not.found'' None], Inr None) \<and>
   config_core (example_env\<lparr>config_core := Map.empty\<rparr>) ''location'' = None \<and>
   p_get_timezone (example_env\<lparr>config_core := Map.empty\<rparr>) None
     = ([SpeakDialog ''time.tz.not.found'' None], Inr None)"
proof -
  let ?mars = "example_env\<lparr>config_core := [''location'' \<mapsto> [''timezone'' \<mapsto> [''code'' \<mapsto> ''Mars/Phobos'']]]\<rparr>"
  let ?none = "(example_env\<lparr>config_core := Map.empty\<rparr>) :: string env"
  have a: "config_core example_env ''location'' = Some [''timezone'' \<mapsto> [''code'' \<mapsto> ''US/Central'']]"
    by (simp add: example_env_def)
  have b: "pytz_timezone example_env ''US/Central'' = Some ''US/Central''"
    by (simp add: example_env_def example_zones_def)
  have c: "config_core ?mars ''location'' = Some [''timezone'' \<mapsto> [''code'' \<mapsto> ''Mars/Phobos'']]"
    by simp
  have d: "pytz_timezone ?mars ''Mars/Phobos'' = None"
    by (simp add: example_env_def example_zones_def)
  have e: "config_core ?none ''location'' = None"
    by simp
  show ?thesis
    using a b c d e
      p_get_timezone_without_location
        [of example_env "[''timezone'' \<mapsto> [''code'' \<mapsto> ''US/Central'']]"
           "[''code'' \<mapsto> ''US/Central'']" "''US/Central''" "''US/Central''"]
      p_get_timezone_without_location
        [of ?mars "[''timezone'' \<mapsto> [''code'' \<mapsto> ''Mars/Phobos'']]"
           "[''code'' \<mapsto> ''Mars/Phobos'']" "''Mars/Phobos''"]
      p_get_timezone_without_location [of ?none]
    by simp
qed

text \<open>
  A geolocation service that is out of reach raises an exception that is not a
  \<^verbatim>\<open>KeyError\<close>: \<^verbatim>\<open>_get_timezone\<close> raises it to its caller, and nothing is spoken.
\<close>

theorem p_get_timezone_service_error_counterexample:
  "get_geolocation example_env ''rome'' = Inl ConnectionError \<and>
   p_get_timezone example_env (Some ''rome'') = ([GetGeolocation ''rome''], Inl ConnectionError) \<and>
   spoken (fst (p_get_timezone example_env (Some ''rome''))) = []"
proof -
  have "get_geolocation example_env ''rome'' = Inl ConnectionError"
    by (simp add: example_env_def)
  moreover have "p_get_timezone example_env (Some ''rome'') = ([GetGeolocation ''rome''], Inl ConnectionError)"
    by code_simp
  moreover have "spoken (fst (p_get_timezone example_env (Some ''rome''))) = []"
    by code_simp
  ultimately show ?thesis
    by (intro conjI)
qed

text \<open>
  Claim C8, as amended. When the call of the geolocation service raises a
  \<^verbatim>\<open>KeyError\<close>, or its result has no \<^verbatim>\<open>timezone\<close>, or the timezone code in its
  result is not known to \<^verbatim>\<open>pytz\<close>, then \<^verbatim>\<open>_get_timezone\<close> returns \<^verbatim>\<open>None\<close> after
  one call of the service and one spoken notification. Any other exception of the
  service is raised to the caller. Whenever \<^verbatim>\<open>_get_timezone\<close> returns, with or without
  a location, it has spoken exactly the one notification if it returns \<^verbatim>\<open>None\<close> and
  nothing otherwise; when it raises, it has spoken nothing.
\<close>

theorem p_get_timezone_not_found:
  "((\<exists>e. get_geolocation env l = Inl e \<and> is_KeyError e)
      \<or> (\<exists>geolocation. get_geolocation env l = Inr geolocation \<and>
            (geolocation ''timezone'' = None
               \<or> (\<exists>code. geolocation ''timezone'' = Some code \<and> pytz_timezone env code = None)))
      \<longrightarrow> p_get_timezone env (Some l)
            = ([GetGeolocation l, SpeakDialog ''time.tz.not.found'' (Some l)], Inr None)) \<and>
   (\<forall>e. get_geolocation env l = Inl e \<and> \<not> is_KeyError e
      \<longrightarrow> p_get_timezone env (Some l) = ([GetGeolocation l], Inl e)) \<and>
   (\<forall>r. snd (p_get_timezone env location) = Inr r
      \<longrightarrow> spoken (fst (p_get_timezone env location))
            = (if r = None then [SpeakDialog ''time.tz.not.found'' location] else [])) \<and>
   (\<forall>e. snd (p_get_timezone env location) = Inl e
      \<longrightarrow> spoken (fst (p_get_timezone env location)) = [])"
proof (intro conjI allI impI)
  assume "(\<exists>e. get_geolocation env l = Inl e \<and> is_KeyError e)
      \<or> (\<exists>geolocation. get_geolocation env l = Inr geolocation \<and>
            (geolocation ''timezone'' = None
               \<or> (\<exists>code. geolocation ''timezone'' = Some code \<and> pytz_timezone env code = None)))"
  then have "(\<exists>e. geolocation_tz_code env l = Inl e \<and> is_KeyError e)
      \<or> (\<exists>code. geolocation_tz_code env l = Inr code \<and> pytz_timezone env code = None)"
    by (auto simp: geolocation_tz_code_def)
  then show "p_get_timezone env (Some l)
            = ([GetGeolocation l, SpeakDialog ''time.tz.not.found'' (Some l)], Inr None)"
    by (auto simp: p_get_timezone_Some)
next
  fix e
  assume "get_geolocation env l = Inl e \<and> \<not> is_KeyError e"
  then show "p_get_timezone env (Some l) = ([GetGeolocation l], Inl e)"
    by (simp add: p_get_timezone_Some geolocation_tz_code_def)
next
  fix r
  assume "snd (p_get_timezone env location) = Inr r"
  then show "spoken (fst (p_get_timezone env location))
            = (if r = None then [SpeakDialog ''time.tz.not.found'' location] else [])"
    by (cases location)
      (auto simp: p_get_timezone_None p_get_timezone_Some spoken_def
        split: sum.splits option.splits if_splits)
next
  fix e
  assume "snd (p_get_timezone env location) = Inl e"
  then show "spoken (fst (p_get_timezone env location)) = []"
    by (cases location)
      (auto simp: p_get_timezone_None p_get_timezone_Some spoken_def
        split: sum.splits option.splits if_splits)
qed

theorem p_get_timezone_not_found_witness:
  "get_geolocation example_env ''nowhere'' = Inr [''city'' \<mapsto> ''Nowhere''] \<and>
   p_get_timezone example_env (Some ''nowhere'')
     = ([GetGeolocation ''nowhere'', SpeakDialog ''time.tz.not.found'' (Some ''nowhere'')], Inr None) \<and>
   get_geolocation example_env ''atlantis''
     = Inr [''city'' \<mapsto> ''Atlantis'', ''timezone'' \<mapsto> ''Ocean/Atlantis''] \<and>
   pytz_timezone example_env ''Ocean/Atlantis'' = None \<and>
   p_get_timezone example_env (Some ''atlantis'')
     = ([GetGeolocation ''atlantis'', SpeakDialog ''time.tz.not.found'' (Some ''atlantis'')], Inr None) \<and>
   p_get_timezone (example_env\<lparr>get_geolocation := (\<lambda>location. Inl KeyError)\<rparr>) (Some ''paris'')
     = ([GetGeolocation ''paris'', SpeakDialog ''time.tz.not.found'' (Some ''paris'')], Inr None) \<and>
   get_geolocation example_env ''rome'' = Inl ConnectionError \<and>
   p_get_timezone example_env (Some ''rome'') = ([GetGeolocation ''rome''], Inl ConnectionError) \<and>
   snd (p_get_timezone example_env (Some ''paris'')) = Inr (Some ''Europe/Paris'') \<and>
   spoken (fst (p_get_timezone example_env (Some ''paris''))) = [] \<and>
   snd (p_get_timezone example_env (Some ''nowhere'')) = Inr None \<and>
   spoken (fst (p_get_timezone example_env (Some ''nowhere'')))
     = [SpeakDialog ''time.tz.not.found'' (Some ''nowhere'')]"
proof -
  let ?key = "example_env\<lparr>get_geolocation := (\<lambda>location. Inl KeyError)\<rparr>"
  have a: "get_geolocation example_env ''nowhere'' = Inr [''city'' \<mapsto> ''Nowhere'']"
    by (simp add: example_env_def)
  have a': "[''city'' \<mapsto> ''Nowhere''] ''timezone'' = None"
    by simp
  have b: "get_geolocation example_env ''atlantis''
     = Inr [''city'' \<mapsto> ''Atlantis'', ''timezone'' \<mapsto> ''Ocean/Atlantis'']"
    by (simp add: example_env_def)
  have b': "[''city'' \<mapsto> ''Atlantis'', ''timezone'' \<mapsto> ''Ocean/Atlantis''] ''timezone'' = Some ''Ocean/Atlantis''"
    by simp
  have b'': "pytz_timezone example_env ''Ocean/Atlantis'' = None"
    by (simp add: example_env_def example_zones_def)
  have c: "get_geolocation ?key ''paris'' = Inl KeyError" "is_KeyError KeyError"
    by simp_all
  have d: "get_geolocation example_env ''rome'' = Inl ConnectionError" "\<not> is_KeyError ConnectionError"
    by (simp_all add: example_env_def)
  have e: "snd (p_get_timezone example_env (Some ''paris'')) = Inr (Some ''Europe/Paris'')"
    by code_simp
  have f: "snd (p_get_timezone example_env (Some ''nowhere'')) = Inr None"
    by code_simp
  note nowhere = p_get_timezone_not_found [of example_env "''nowhere''" "Some ''nowhere''"]
  note atlantis = p_get_timezone_not_found [of example_env "''atlantis''" "Some ''paris''"]
  note key = p_get_timezone_not_found [of ?key "''paris''" "Some ''paris''"]
  note rome = p_get_timezone_not_found [of example_env "''rome''" "Some ''rome''"]
  have w1: "p_get_timezone example_env (Some ''nowhere'')
     = ([GetGeolocation ''nowhere'', SpeakDialog ''time.tz.not.found'' (Some ''nowhere'')], Inr None)"
    using nowhere a a' by blast
  have w2: "p_get_timezone example_env (Some ''atlantis'')
     = ([GetGeolocation ''atlantis'', SpeakDialog ''time.tz.not.found'' (Some ''atlantis'')], Inr None)"
    using atlantis b b' b'' by blast
  have w3: "p_get_timezone ?key (Some ''paris'')
     = ([GetGeolocation ''paris'', SpeakDialog ''time.tz.not.found'' (Some ''paris'')], Inr None)"
    using key c by blast
  have w4: "p_get_timezone example_env (Some ''rome'') = ([GetGeolocation ''rome''], Inl ConnectionError)"
    using rome d by blast
  have w5: "spoken (fst (p_get_timezone example_env (Some ''paris''))) = []"
    using atlantis e by simp
  have w6: "spoken (fst (p_get_timezone example_env (Some ''nowhere'')))
     = [SpeakDialog ''time.tz.not.found'' (Some ''nowhere'')]"
    using nowhere f by simp
  show ?thesis
    by (intro conjI a w1 b b'' w2 w3 d(1) w4 e w5 f w6)
qed

section \<open>Exceptions that reach the caller\<close>







section \<open>Properties of \<^verbatim>\<open>_extract_location\<close>\<close>

lemma extract_loop_skips:
  assumes "\<forall>p \<in> set patterns.
             re_search env p utterance = None
               \<or> (\<exists>m. re_search env p utterance = Some m \<and> m ''Location'' = None)"
  shows "extract_loop env utterance patterns location = Inr location"
  using assms by (induction patterns) auto

lemma extract_loop_append:
  assumes "\<forall>p \<in> set skipped.
             re_search env p utterance = None
               \<or> (\<exists>m. re_search env p utterance = Some m \<and> m ''Location'' = None)"
  shows "extract_loop env utterance (skipped @ patterns) location
           = extract_loop env utterance patterns location"
  using assms by (induction skipped) auto

lemma p_extract_location_none:
  assumes "\<forall>p \<in> set (p_get_location_patterns env).
             re_search env p utterance = None
               \<or> (\<exists>m. re_search env p utterance = Some m \<and> m ''Location'' = None)"
  shows "p_extract_location env utterance = Inr None"
  using assms by (simp add: p_extract_location_def extract_loop_skips)

lemma p_extract_location_first_capture:
  assumes "p_get_location_patterns env = skipped @ regex_pattern # later"
    and "\<forall>p \<in> set skipped.
             re_search env p utterance = None
               \<or> (\<exists>m. re_search env p utterance = Some m \<and> m ''Location'' = None)"
    and "re_search env regex_pattern utterance = Some search_result"
    and "search_result ''Location'' = Some (Some found)"
  shows "p_extract_location env utterance = Inr (Some found)"
  using assms by (simp add: p_extract_location_def extract_loop_append)

lemma p_extract_location_unset_group:
  assumes "p_get_location_patterns env = skipped @ regex_pattern # later"
    and "\<forall>p \<in> set skipped.
             re_search env p utterance = None
               \<or> (\<exists>m. re_search env p utterance = Some m \<and> m ''Location'' = None)"
    and "re_search env regex_pattern utterance = Some search_result"
    and "search_result ''Location'' = Some None"
  shows "p_extract_location env utterance = Inl TypeError"
  using assms by (simp add: p_extract_location_def extract_loop_append)

lemma p_extract_location_examples:
  "p_get_location_patterns example_env
     = [''what (?P<Asked>time|day)'', ''(in|for) (?P<Location>.+)'', ''time( in (?P<Location>.+))?$''] \<and>
   p_extract_location example_env ''what time is it in paris'' = Inr (Some ''paris'') \<and>
   p_extract_location example_env ''what time is it'' = Inr None"
  by (simp add: p_extract_location_def p_get_location_patterns_def example_env_def
      example_search_def str_strip_def is_space_def)

text \<open>
  Claim C6, at the input where the code departs from it. The last pattern of the example
  file has an optional group \<^verbatim>\<open>Location\<close>. In \<^verbatim>\<open>what is the time\<close> the first two
  patterns find nothing and the last one matches without its group, so
  \<^verbatim>\<open>group("Location")\<close> is \<^verbatim>\<open>None\<close> and no \<^verbatim>\<open>IndexError\<close> is raised; the
  concatenation for the debug message then raises \<^verbatim>\<open>TypeError\<close>, where the claim has
  the result \<^verbatim>\<open>None\<close>.
\<close>

theorem p_extract_location_unset_group_raises:
  "p_get_location_patterns example_env
     = [''what (?P<Asked>time|day)'', ''(in|for) (?P<Location>.+)'', ''time( in (?P<Location>.+))?$''] \<and>
   re_search example_env ''what (?P<Asked>time|day)'' ''what is the time'' = None \<and>
   re_search example_env ''(in|for) (?P<Location>.+)'' ''what is the time'' = None \<and>
   (\<exists>search_result.
      re_search example_env ''time( in (?P<Location>.+))?$'' ''what is the time'' = Some search_result \<and>
      search_result ''Location'' = Some None) \<and>
   p_extract_location example_env ''what is the time'' = Inl TypeError"
  by (simp add: p_extract_location_def p_get_location_patterns_def example_env_def
      example_search_def str_strip_def is_space_def)

end
